theory Spec2Isabelle
  imports Complex_Main
begin

section \<open>Scatter chart label engine: a shallow embedding\<close>

text \<open>
  The repository holds two implementations of the scatter chart page:
  \<^verbatim>\<open>src/ScatterChart_GoogleGem_index.tsx\<close> and \<^verbatim>\<open>src/unnamed/part_000\<close>.
  Both declare the same function names. The constants below keep the source's name for
  the first file and carry the suffix \<open>_part000\<close> for the second.

  JavaScript numbers are modelled by the reals: every arithmetic operation is exact, so
  rounding, overflow and underflow of IEEE doubles are outside the model, and a
  statement below is one about the source only where none of them occurs. The non-finite
  numbers and \<^verbatim>\<open>null\<close> appear only as inputs, in the type \<open>jsval\<close>, because the source
  tests for them before it computes.
\<close>

subsection \<open>Data model\<close>

datatype scale = Linear | Log

text \<open>A metric value as read off a company record: \<^verbatim>\<open>null\<close>, \<^verbatim>\<open>undefined\<close> or a number.\<close>

datatype jsval = Null | Undefined | Fin real | PosInf | NegInf | NaN

text \<open>\<^verbatim>\<open>Number.isFinite(v)\<close>\<close>

fun Number_isFinite :: "jsval \<Rightarrow> bool" where
  "Number_isFinite (Fin r) = True"
| "Number_isFinite Null = False"
| "Number_isFinite Undefined = False"
| "Number_isFinite PosInf = False"
| "Number_isFinite NegInf = False"
| "Number_isFinite NaN = False"

text \<open>\<^verbatim>\<open>v > 0\<close>: \<^verbatim>\<open>null\<close> converts to 0, \<^verbatim>\<open>undefined\<close> to NaN.\<close>

fun gt_zero :: "jsval \<Rightarrow> bool" where
  "gt_zero (Fin r) = (0 < r)"
| "gt_zero PosInf = True"
| "gt_zero Null = False"
| "gt_zero Undefined = False"
| "gt_zero NegInf = False"
| "gt_zero NaN = False"

text \<open>\<^verbatim>\<open>values.filter(v => Number.isFinite(v))\<close>, with the finite values as reals.\<close>

fun finiteValues :: "jsval list \<Rightarrow> real list" where
  "finiteValues [] = []"
| "finiteValues (Fin r # vs) = r # finiteValues vs"
| "finiteValues (v # vs) = finiteValues vs"

text \<open>
  \<^verbatim>\<open>Math.min(...xs)\<close> and \<^verbatim>\<open>Math.max(...xs)\<close>. Every call in the source stands behind a
  test that the list is not empty.
\<close>

definition Math_min :: "real list \<Rightarrow> real" where
  "Math_min xs = Min (set xs)"

definition Math_max :: "real list \<Rightarrow> real" where
  "Math_max xs = Max (set xs)"

subsection \<open>Zoom handlers (identical in both files)\<close>

text \<open>
  \<^verbatim>\<open>handleZoomIn = () => setZoom(prev => Math.min(prev * 1.2, 5))\<close>,
  \<^verbatim>\<open>handleZoomOut = () => setZoom(prev => Math.max(prev / 1.2, 0.5))\<close>,
  \<^verbatim>\<open>handleResetZoom = () => setZoom(1)\<close>; the state starts at \<^verbatim>\<open>useState(1)\<close>.
\<close>

definition handleZoomIn :: "real \<Rightarrow> real" where
  "handleZoomIn prev = min (prev * 1.2) 5"

definition handleZoomOut :: "real \<Rightarrow> real" where
  "handleZoomOut prev = max (prev / 1.2) 0.5"

definition handleResetZoom :: "real \<Rightarrow> real" where
  "handleResetZoom prev = 1"

datatype zoom_event = ZoomIn | ZoomOut | ResetZoom

fun zoom_step :: "real \<Rightarrow> zoom_event \<Rightarrow> real" where
  "zoom_step z ZoomIn = handleZoomIn z"
| "zoom_step z ZoomOut = handleZoomOut z"
| "zoom_step z ResetZoom = handleResetZoom z"

definition initial_zoom :: real where
  "initial_zoom = 1"

fun zoom_after :: "real \<Rightarrow> zoom_event list \<Rightarrow> real" where
  "zoom_after z [] = z"
| "zoom_after z (e # es) = zoom_after (zoom_step z e) es"

subsection \<open>Value normalizer\<close>

text \<open>
  \<^verbatim>\<open>normalizeValues\<close> of \<^verbatim>\<open>ScatterChart_GoogleGem_index.tsx\<close> (lines 192-236). The
  tests \<^verbatim>\<open>!Number.isFinite(v) || v <= 0\<close> and \<^verbatim>\<open>!Number.isFinite(v)\<close> of the two last maps
  are the \<open>case\<close> on \<open>Fin\<close>.
\<close>

definition normalizeValues :: "jsval list \<Rightarrow> scale \<Rightarrow> real list" where
  "normalizeValues vals sc =
    (if vals = [] then []
     else if finiteValues vals = [] then map (\<lambda>v. 1/2) vals
     else if sc = Log then
       (let positiveValues = filter (\<lambda>v. 0 < v) (finiteValues vals) in
        if positiveValues = [] then
          map (\<lambda>v. if Number_isFinite v \<and> gt_zero v then 1/2 else 0) vals
        else
          (let minLog = log 10 (Math_min positiveValues);
               maxLog = log 10 (Math_max positiveValues) in
           if minLog = maxLog then
             map (\<lambda>v. if Number_isFinite v \<and> gt_zero v then 1/2 else 0) vals
           else
             map (\<lambda>v. case v of
                    Fin r \<Rightarrow>
                      if r \<le> 0 then 0
                      else max 0 (min 1 ((log 10 r - minLog) / (maxLog - minLog)))
                  | _ \<Rightarrow> 0) vals))
     else
       (let mn = Math_min (finiteValues vals); mx = Math_max (finiteValues vals) in
        if mn = mx then map (\<lambda>v. if Number_isFinite v then 1/2 else 0) vals
        else map (\<lambda>v. case v of
                    Fin r \<Rightarrow> max 0 (min 1 ((r - mn) / (mx - mn)))
                  | _ \<Rightarrow> 0) vals))"

text \<open>
  \<^verbatim>\<open>normalizeValues\<close> of \<^verbatim>\<open>part_000\<close> (lines 152-165). It has no test for non-finite
  numbers, so it is modelled on finite inputs only; \<^verbatim>\<open>Math.log\<close> is the natural logarithm.
\<close>

definition normalizeValues_part000 :: "real list \<Rightarrow> scale \<Rightarrow> real list" where
  "normalizeValues_part000 vals sc =
    (if vals = [] then []
     else if sc = Log then
       (let logValues = map (\<lambda>v. ln (max v 1)) vals;
            minLog = Math_min logValues;
            maxLog = Math_max logValues in
        map (\<lambda>v. if maxLog = minLog then 0 else (v - minLog) / (maxLog - minLog)) logValues)
     else
       (let mn = Math_min vals; mx = Math_max vals in
        map (\<lambda>v. if mx = mn then 0 else (v - mn) / (mx - mn)) vals))"

subsection \<open>Domain calculator\<close>

text \<open>A domain bound of the first file: a number or the string \<^verbatim>\<open>'auto'\<close>.\<close>

datatype domval = Auto | Bound real

text \<open>\<^verbatim>\<open>a || b\<close> on numbers: \<open>b\<close> when \<open>a\<close> is zero.\<close>

definition js_or :: "real \<Rightarrow> real \<Rightarrow> real" where
  "js_or a b = (if a = 0 then b else a)"

text \<open>\<^verbatim>\<open>getDomain\<close> of \<^verbatim>\<open>ScatterChart_GoogleGem_index.tsx\<close> (lines 386-419).\<close>

definition getDomain :: "jsval list \<Rightarrow> scale \<Rightarrow> domval \<times> domval" where
  "getDomain vals sc =
    (if finiteValues vals = [] then (Auto, Auto)
     else if sc = Log then
       (let positiveValues = filter (\<lambda>v. 0 < v) (finiteValues vals) in
        if positiveValues = [] then (Auto, Auto)
        else
          (let minVal = Math_min positiveValues;
               maxVal = Math_max positiveValues;
               domainMin = minVal / 1.5;
               domainMax = maxVal * 1.5 in
           (Bound (if 0 < domainMin then domainMin else 1 / 10 ^ 9), Bound domainMax)))
     else
       (let minVal = Math_min (finiteValues vals);
            maxVal = Math_max (finiteValues vals) in
        if minVal = maxVal then
          (let padding = js_or \<bar>minVal * 0.1\<bar> 1 in
           (Bound (minVal - padding), Bound (minVal + padding)))
        else
          (let rng = maxVal - minVal;
               padding = rng * 0.1 in
           (Bound (minVal - padding), Bound (maxVal + padding)))))"

text \<open>
  \<^verbatim>\<open>getDomain\<close> of \<^verbatim>\<open>part_000\<close> (lines 241-259); \<^verbatim>\<open>Math.pow(10, e)\<close> is \<open>10 powr e\<close>.
\<close>

definition getDomain_part000 :: "real list \<Rightarrow> scale \<Rightarrow> real \<times> real" where
  "getDomain_part000 vals sc =
    (if vals = [] then (0, 1)
     else if sc = Log then
       (let logValues = map (\<lambda>v. ln (max v 1)) vals;
            minLog = Math_min logValues;
            maxLog = Math_max logValues;
            padding = js_or ((maxLog - minLog) * 0.1) 0.1 in
        (10 powr (minLog - padding), 10 powr (maxLog + padding)))
     else
       (let mn = Math_min vals;
            mx = Math_max vals;
            padding = js_or ((mx - mn) * 0.1) 0.1 in
        (mn - padding, mx + padding)))"

subsection \<open>Coordinate mapper\<close>

text \<open>
  \<^verbatim>\<open>mapX\<close> and \<^verbatim>\<open>mapY\<close> of \<^verbatim>\<open>ScatterChart_GoogleGem_index.tsx\<close> (lines 455-481), closures
  over the margins, the size of the view box, the domains and the scale modes.
  \<^verbatim>\<open>Number.isFinite\<close> of a bound fails on \<^verbatim>\<open>'auto'\<close>: the second equation.
\<close>

fun mapX :: "real \<Rightarrow> real \<Rightarrow> domval \<times> domval \<Rightarrow> scale \<Rightarrow> real \<Rightarrow> real" where
  "mapX marginLeft vbWidth (Bound dMin, Bound dMax) xScale dataX =
    (if dMax = dMin then marginLeft
     else if xScale = Log then
       (if dataX \<le> 0 \<or> dMin \<le> 0 \<or> dMax \<le> 0 then marginLeft
        else
          (let logMin = log 10 dMin; logMax = log 10 dMax in
           if logMin = logMax then marginLeft
           else marginLeft + ((log 10 dataX - logMin) / (logMax - logMin)) * vbWidth))
     else marginLeft + ((dataX - dMin) / (dMax - dMin)) * vbWidth)"
| "mapX marginLeft vbWidth _ xScale dataX = marginLeft"

fun mapY :: "real \<Rightarrow> real \<Rightarrow> domval \<times> domval \<Rightarrow> scale \<Rightarrow> real \<Rightarrow> real" where
  "mapY marginTop vbHeight (Bound dMin, Bound dMax) yScale dataY =
    (if dMax = dMin then marginTop + vbHeight
     else if yScale = Log then
       (if dataY \<le> 0 \<or> dMin \<le> 0 \<or> dMax \<le> 0 then marginTop + vbHeight
        else
          (let logMin = log 10 dMin; logMax = log 10 dMax in
           if logMin = logMax then marginTop + vbHeight
           else marginTop + vbHeight
                  - (((log 10 dataY - logMin) / (logMax - logMin)) * vbHeight)))
     else marginTop + vbHeight - (((dataY - dMin) / (dMax - dMin)) * vbHeight))"
| "mapY marginTop vbHeight _ yScale dataY = marginTop + vbHeight"

text \<open>
  \<^verbatim>\<open>screenX\<close> and \<^verbatim>\<open>screenY\<close> of \<^verbatim>\<open>updateLabels\<close> in \<^verbatim>\<open>part_000\<close> (lines 282-287). The
  source reads neither \<^verbatim>\<open>xScale\<close> nor \<^verbatim>\<open>yScale\<close> here. It has no test for a domain whose
  bounds are equal: it divides by zero there and the coordinate is NaN or infinite, which
  is the result \<open>None\<close>.
\<close>

definition screenX_part000 :: "real \<Rightarrow> real \<Rightarrow> real \<times> real \<Rightarrow> real \<Rightarrow> real option" where
  "screenX_part000 chartMarginLeft plotWidth xDomain dataX =
     (if snd xDomain - fst xDomain = 0 then None
      else Some (chartMarginLeft
                 + ((dataX - fst xDomain) / (snd xDomain - fst xDomain)) * plotWidth))"


subsection \<open>Density estimator\<close>

record point =
  px :: real
  py :: real

text \<open>
  \<^verbatim>\<open>calculateDensity\<close> of \<^verbatim>\<open>ScatterChart_GoogleGem_index.tsx\<close> (lines 78-89): the
  \<^verbatim>\<open>for\<close> loop that counts, then \<^verbatim>\<open>count > 0 ? count - 1 : 0\<close>.
\<close>

fun density_loop :: "point \<Rightarrow> real \<Rightarrow> point list \<Rightarrow> nat \<Rightarrow> nat" where
  "density_loop pt radius [] count = count"
| "density_loop pt radius (p # ps) count =
    (let dx = px p - px pt;
         dy = py p - py pt in
     density_loop pt radius ps
       (if dx * dx + dy * dy < radius * radius then count + 1 else count))"

definition calculateDensity :: "point \<Rightarrow> point list \<Rightarrow> real \<Rightarrow> nat" where
  "calculateDensity pt allPoints radius =
    (let count = density_loop pt radius allPoints 0 in
     if count > 0 then count - 1 else 0)"

text \<open>\<^verbatim>\<open>calculateDensity\<close> of \<^verbatim>\<open>part_000\<close> (lines 65-69).\<close>

definition calculateDensity_part000 :: "point \<Rightarrow> point list \<Rightarrow> real \<Rightarrow> nat" where
  "calculateDensity_part000 pt allPoints radius =
    length (filter (\<lambda>p. sqrt ((px p - px pt) ^ 2 + (py p - py pt) ^ 2) < radius) allPoints)"

text \<open>
  The specification's wording, for comparison with the two functions above: the number
  of anchors, the point itself left out, whose Euclidean distance to the point is
  strictly less than the radius.
\<close>

definition euclidean :: "point \<Rightarrow> point \<Rightarrow> real" where
  "euclidean p q = sqrt ((px p - px q) ^ 2 + (py p - py q) ^ 2)"

definition density_spec :: "point \<Rightarrow> point list \<Rightarrow> real \<Rightarrow> nat" where
  "density_spec pt allPoints radius =
    length (filter (\<lambda>p. euclidean p pt < radius) (remove1 pt allPoints))"

subsection \<open>Label rectangles and the search for a free position\<close>

record LabelPosition =
  lp_id :: string
  lp_x :: real
  lp_y :: real
  lp_width :: real
  lp_height :: real
  lp_density :: real

text \<open>
  \<^verbatim>\<open>doLabelsOverlap\<close> of \<^verbatim>\<open>ScatterChart_GoogleGem_index.tsx\<close> (lines 92-99): \<open>lp_x\<close> and
  \<open>lp_y\<close> are the centre of the rectangle.
\<close>

definition doLabelsOverlap :: "LabelPosition \<Rightarrow> LabelPosition \<Rightarrow> real \<Rightarrow> bool" where
  "doLabelsOverlap a b padding =
    (\<not> (lp_x a + lp_width a / 2 + padding < lp_x b - lp_width b / 2 \<or>
        lp_x b + lp_width b / 2 + padding < lp_x a - lp_width a / 2 \<or>
        lp_y a + lp_height a / 2 + padding < lp_y b - lp_height b / 2 \<or>
        lp_y b + lp_height b / 2 + padding < lp_y a - lp_height a / 2))"

text \<open>
  \<^verbatim>\<open>doLabelsOverlap\<close> of \<^verbatim>\<open>part_000\<close> (lines 71-78): \<open>lp_x\<close> and \<open>lp_y\<close> are the corner
  with the least coordinates.
\<close>

definition doLabelsOverlap_part000 :: "LabelPosition \<Rightarrow> LabelPosition \<Rightarrow> real \<Rightarrow> bool" where
  "doLabelsOverlap_part000 a b padding =
    (\<not> (lp_x a + lp_width a + padding < lp_x b \<or>
        lp_x b + lp_width b + padding < lp_x a \<or>
        lp_y a + lp_height a + padding < lp_y b \<or>
        lp_y b + lp_height b + padding < lp_y a))"

text \<open>
  \<^verbatim>\<open>findBestLabelPosition\<close> of \<^verbatim>\<open>ScatterChart_GoogleGem_index.tsx\<close> (lines 102-156). The
  outer loop over \<^verbatim>\<open>potentialOffsets\<close> is \<open>tryOffsets\<close>; the inner loop with its
  \<^verbatim>\<open>break\<close> is \<open>list_ex\<close>. \<^verbatim>\<open>label.length\<close> is the length of the string.
\<close>

definition potentialOffsets :: "(real \<times> real) list" where
  "potentialOffsets =
    [(0, -15), (15, 0), (0, 15), (-15, 0),
     (12, -12), (12, 12), (-12, 12), (-12, -12),
     (0, -25), (25, 0), (0, 25), (-25, 0)]"

definition newLabelRect :: "string \<Rightarrow> real \<Rightarrow> real \<Rightarrow> real \<Rightarrow> LabelPosition" where
  "newLabelRect lbl fontSize potentialX potentialY =
    \<lparr>lp_id = lbl, lp_x = potentialX, lp_y = potentialY,
     lp_width = real (length lbl) * fontSize * 0.6,
     lp_height = fontSize + 4, lp_density = 0\<rparr>"

fun tryOffsets ::
  "real \<Rightarrow> real \<Rightarrow> string \<Rightarrow> LabelPosition list \<Rightarrow> real \<Rightarrow> real \<Rightarrow> (real \<times> real) list
    \<Rightarrow> (real \<times> real) option" where
  "tryOffsets baseX baseY lbl existingLabels fontSize padding [] = None"
| "tryOffsets baseX baseY lbl existingLabels fontSize padding ((dx, dy) # offsets) =
    (let potentialX = baseX + dx;
         potentialY = baseY + dy;
         overlaps = list_ex (\<lambda>existing.
           doLabelsOverlap existing (newLabelRect lbl fontSize potentialX potentialY) padding)
           existingLabels in
     if \<not> overlaps then Some (potentialX, potentialY)
     else tryOffsets baseX baseY lbl existingLabels fontSize padding offsets)"

definition findBestLabelPosition ::
  "real \<Rightarrow> real \<Rightarrow> string \<Rightarrow> LabelPosition list \<Rightarrow> real \<Rightarrow> real \<Rightarrow> (real \<times> real) option" where
  "findBestLabelPosition baseX baseY lbl existingLabels fontSize padding =
    tryOffsets baseX baseY lbl existingLabels fontSize padding potentialOffsets"

text \<open>
  \<^verbatim>\<open>findBestLabelPosition\<close> of \<^verbatim>\<open>part_000\<close> (lines 80-122): the candidates are absolute
  positions, and the rectangle tested is the one centred at the candidate, given by its
  corner.
\<close>

definition positions_part000 :: "real \<Rightarrow> real \<Rightarrow> (real \<times> real) list" where
  "positions_part000 baseX baseY =
    [(baseX, baseY - 15), (baseX + 15, baseY), (baseX, baseY + 15), (baseX - 15, baseY),
     (baseX + 15, baseY - 15), (baseX + 15, baseY + 15),
     (baseX - 15, baseY + 15), (baseX - 15, baseY - 15),
     (baseX, baseY - 25), (baseX + 25, baseY), (baseX, baseY + 25), (baseX - 25, baseY)]"

definition newLabel_part000 :: "string \<Rightarrow> real \<Rightarrow> real \<times> real \<Rightarrow> LabelPosition" where
  "newLabel_part000 lbl fontSize pos =
    (let labelWidth = real (length lbl) * fontSize * 0.6;
         labelHeight = fontSize + 4 in
     \<lparr>lp_id = lbl, lp_x = fst pos - labelWidth / 2, lp_y = snd pos - labelHeight / 2,
      lp_width = labelWidth, lp_height = labelHeight, lp_density = 0\<rparr>)"

fun tryPositions_part000 ::
  "string \<Rightarrow> LabelPosition list \<Rightarrow> real \<Rightarrow> real \<Rightarrow> (real \<times> real) list
    \<Rightarrow> (real \<times> real) option" where
  "tryPositions_part000 lbl existingLabels fontSize padding [] = None"
| "tryPositions_part000 lbl existingLabels fontSize padding (pos # positions) =
    (if \<not> list_ex (\<lambda>existing.
           doLabelsOverlap_part000 existing (newLabel_part000 lbl fontSize pos) padding)
           existingLabels
     then Some pos
     else tryPositions_part000 lbl existingLabels fontSize padding positions)"

definition findBestLabelPosition_part000 ::
  "real \<Rightarrow> real \<Rightarrow> string \<Rightarrow> LabelPosition list \<Rightarrow> real \<Rightarrow> real \<Rightarrow> (real \<times> real) option" where
  "findBestLabelPosition_part000 baseX baseY lbl existingLabels fontSize padding =
    tryPositions_part000 lbl existingLabels fontSize padding (positions_part000 baseX baseY)"

text \<open>
  The specification's wording of overlap, for comparison with the two tests above: a
  rectangle is given by its four edges, and two rectangles overlap under a padding when
  on neither axis one of them lies more than the padding beyond the other. A label
  rectangle of the first file is given by its centre, one of the second file by its
  corner with the least coordinates.
\<close>

record box =
  b_left :: real
  b_right :: real
  b_top :: real
  b_bottom :: real

definition box_centred :: "real \<Rightarrow> real \<Rightarrow> real \<Rightarrow> real \<Rightarrow> box" where
  "box_centred cx cy w h =
    \<lparr>b_left = cx - w / 2, b_right = cx + w / 2, b_top = cy - h / 2, b_bottom = cy + h / 2\<rparr>"

definition box_cornered :: "real \<Rightarrow> real \<Rightarrow> real \<Rightarrow> real \<Rightarrow> box" where
  "box_cornered x0 y0 w h =
    \<lparr>b_left = x0, b_right = x0 + w, b_top = y0, b_bottom = y0 + h\<rparr>"

definition boxes_overlap :: "real \<Rightarrow> box \<Rightarrow> box \<Rightarrow> bool" where
  "boxes_overlap padding a b =
    (b_left b \<le> b_right a + padding \<and> b_left a \<le> b_right b + padding \<and>
     b_top b \<le> b_bottom a + padding \<and> b_top a \<le> b_bottom b + padding)"

subsection \<open>Scatter points\<close>

text \<open>
  \<^verbatim>\<open>transformedData\<close>. The three reads \<^verbatim>\<open>getNestedValue(company, path)\<close> are the
  parameters \<open>xOf\<close>, \<open>yOf\<close> and \<open>zOf\<close>; the type of a company is left open.
\<close>

record 'c RawPoint =
  rp_x :: jsval
  rp_y :: jsval
  rp_z :: jsval
  rp_company :: 'c

record 'c ScatterPoint =
  sp_x :: jsval
  sp_y :: jsval
  sp_z :: jsval
  sp_normalizedZ :: real
  sp_company :: 'c

definition rawPoints ::
  "('c \<Rightarrow> jsval) \<Rightarrow> ('c \<Rightarrow> jsval) \<Rightarrow> ('c \<Rightarrow> jsval) \<Rightarrow> 'c list \<Rightarrow> 'c RawPoint list" where
  "rawPoints xOf yOf zOf data =
    map (\<lambda>company. \<lparr>rp_x = xOf company, rp_y = yOf company, rp_z = zOf company,
                     rp_company = company\<rparr>) data"

text \<open>The filter of \<^verbatim>\<open>ScatterChart_GoogleGem_index.tsx\<close> (lines 367-373).\<close>

definition validPoints ::
  "('c \<Rightarrow> jsval) \<Rightarrow> ('c \<Rightarrow> jsval) \<Rightarrow> ('c \<Rightarrow> jsval) \<Rightarrow> scale \<Rightarrow> scale \<Rightarrow> scale \<Rightarrow> 'c list
    \<Rightarrow> 'c RawPoint list" where
  "validPoints xOf yOf zOf xScale yScale zScale data =
    filter (\<lambda>p.
        rp_x p \<noteq> Null \<and> rp_y p \<noteq> Null \<and> rp_z p \<noteq> Null \<and>
        Number_isFinite (rp_x p) \<and> Number_isFinite (rp_y p) \<and> Number_isFinite (rp_z p) \<and>
        (xScale = Linear \<or> gt_zero (rp_x p)) \<and>
        (yScale = Linear \<or> gt_zero (rp_y p)) \<and>
        (zScale = Linear \<or> gt_zero (rp_z p)))
      (rawPoints xOf yOf zOf data)"

text \<open>
  \<^verbatim>\<open>transformedData\<close> of \<^verbatim>\<open>ScatterChart_GoogleGem_index.tsx\<close> (lines 359-383);
  \<^verbatim>\<open>normalizedZValues[index] ?? 0.5\<close> reads 0.5 past the end of the array.
\<close>

definition transformedData ::
  "('c \<Rightarrow> jsval) \<Rightarrow> ('c \<Rightarrow> jsval) \<Rightarrow> ('c \<Rightarrow> jsval) \<Rightarrow> scale \<Rightarrow> scale \<Rightarrow> scale \<Rightarrow> 'c list
    \<Rightarrow> 'c ScatterPoint list" where
  "transformedData xOf yOf zOf xScale yScale zScale data =
    (let vp = validPoints xOf yOf zOf xScale yScale zScale data;
         zValues = map rp_z vp;
         normalizedZValues = normalizeValues zValues zScale in
     map (\<lambda>(p, index).
            \<lparr>sp_x = rp_x p, sp_y = rp_y p, sp_z = rp_z p,
             sp_normalizedZ =
               (if index < length normalizedZValues then normalizedZValues ! index else 1/2),
             sp_company = rp_company p\<rparr>)
         (zip vp [0 ..< length vp]))"

text \<open>
  The filter of \<^verbatim>\<open>part_000\<close> (lines 221-226). \<^verbatim>\<open>!xScale\<close> is false for both scale modes.
  The map that follows it (lines 231-234) keeps every point and adds \<^verbatim>\<open>normalizedZ\<close>, so
  the points of \<^verbatim>\<open>transformedData\<close> are those of \<^verbatim>\<open>validPoints\<close>.
\<close>

definition validPoints_part000 ::
  "('c \<Rightarrow> jsval) \<Rightarrow> ('c \<Rightarrow> jsval) \<Rightarrow> ('c \<Rightarrow> jsval) \<Rightarrow> scale \<Rightarrow> scale \<Rightarrow> scale \<Rightarrow> 'c list
    \<Rightarrow> 'c RawPoint list" where
  "validPoints_part000 xOf yOf zOf xScale yScale zScale data =
    filter (\<lambda>p.
        rp_x p \<noteq> Null \<and> rp_y p \<noteq> Null \<and> rp_z p \<noteq> Null \<and>
        (xScale = Linear \<or> gt_zero (rp_x p)) \<and>
        (yScale = Linear \<or> gt_zero (rp_y p)) \<and>
        (zScale = Linear \<or> gt_zero (rp_z p)))
      (rawPoints xOf yOf zOf data)"

text \<open>
  The specification's wording of the test a value passes on its axis: it is not null, it
  is a finite number, and it is strictly positive when the axis is logarithmic.
\<close>

fun qualifies :: "scale \<Rightarrow> jsval \<Rightarrow> bool" where
  "qualifies sc (Fin r) = (if sc = Log then 0 < r else True)"
| "qualifies sc v = False"

subsection \<open>Rendering the settled labels\<close>

text \<open>
  \<^verbatim>\<open>createLabelSimulation\<close> is imported from \<^verbatim>\<open>lib/force-simulation\<close>, which is not among
  the sources; the list it returns is a parameter of the functions below.
\<close>

record SimLabel =
  sl_id :: string
  sl_text :: string
  sl_x :: real
  sl_y :: real
  sl_width :: real
  sl_height :: real
  sl_dataX :: real
  sl_dataY :: real

text \<open>
  An element drawn for a label: the leader line when there is one (both end points), the
  background rectangle (corner, width, height) and the text (position, string).
\<close>

record LabelElement =
  el_key :: string
  el_line :: "(real \<times> real \<times> real \<times> real) option"
  el_rect :: "real \<times> real \<times> real \<times> real"
  el_text :: "real \<times> real \<times> string"

text \<open>
  The body of \<^verbatim>\<open>simulatedLabels.map\<close> in \<^verbatim>\<open>ScatterChart_GoogleGem_index.tsx\<close>
  (lines 537-582).
\<close>

definition renderLabel :: "SimLabel \<Rightarrow> LabelElement" where
  "renderLabel l =
    (let finalX = sl_x l;
         finalY = sl_y l;
         showLine = True;
         dx = finalX - sl_dataX l;
         dy = finalY - sl_dataY l;
         distance = sqrt (dx * dx + dy * dy);
         shouldShowLine = (showLine \<and> distance > 5) in
     \<lparr>el_key = sl_id l,
      el_line = (if shouldShowLine then Some (sl_dataX l, sl_dataY l, finalX, finalY) else None),
      el_rect = (finalX - sl_width l / 2 - 2, finalY - sl_height l / 2 - 1,
                 sl_width l + 4, sl_height l + 2),
      el_text = (finalX, finalY, sl_text l)\<rparr>)"

definition labelElements :: "SimLabel list \<Rightarrow> LabelElement list" where
  "labelElements simulatedLabels = map renderLabel simulatedLabels"

text \<open>
  The same in \<^verbatim>\<open>part_000\<close> (lines 327-372): \<^verbatim>\<open>dataX\<close> and \<^verbatim>\<open>dataY\<close> are optional fields,
  \<^verbatim>\<open>label.dataX || 0\<close> reads 0 for a missing one, a label closer than 15 to its anchor
  gives \<^verbatim>\<open>null\<close>, and \<^verbatim>\<open>.filter(Boolean)\<close> drops the nulls.
\<close>

record SimLabel_part000 =
  s0_id :: string
  s0_x :: real
  s0_y :: real
  s0_width :: real
  s0_height :: real
  s0_dataX :: "real option"
  s0_dataY :: "real option"

record LabelElement_part000 =
  e0_key :: string
  e0_line :: "real option \<times> real option \<times> real \<times> real"
  e0_rect :: "real \<times> real \<times> real \<times> real"
  e0_text :: "real \<times> real \<times> string"

definition renderLabel_part000 ::
  "real \<Rightarrow> real \<Rightarrow> SimLabel_part000 \<Rightarrow> LabelElement_part000 option" where
  "renderLabel_part000 chartMarginLeft chartMarginTop l =
    (let fontSize = 10;
         labelCenterX = s0_x l + chartMarginLeft;
         labelCenterY = s0_y l + chartMarginTop;
         dx = labelCenterX - (case s0_dataX l of Some v \<Rightarrow> js_or v 0 | None \<Rightarrow> 0);
         dy = labelCenterY - (case s0_dataY l of Some v \<Rightarrow> js_or v 0 | None \<Rightarrow> 0);
         distance = sqrt (dx * dx + dy * dy) in
     if distance < 15 then None
     else Some
       \<lparr>e0_key = s0_id l,
        e0_line = (s0_dataX l, s0_dataY l, labelCenterX, labelCenterY),
        e0_rect = (labelCenterX - s0_width l / 2, labelCenterY - s0_height l / 2,
                   s0_width l, s0_height l),
        e0_text = (labelCenterX, labelCenterY + fontSize / 2 - 1, s0_id l)\<rparr>)"

definition labelElements_part000 ::
  "real \<Rightarrow> real \<Rightarrow> SimLabel_part000 list \<Rightarrow> LabelElement_part000 list" where
  "labelElements_part000 chartMarginLeft chartMarginTop simulatedLabels =
    List.map_filter (renderLabel_part000 chartMarginLeft chartMarginTop) simulatedLabels"

section \<open>Theorems\<close>

subsection \<open>Zoom\<close>

lemma zoom_step_range:
  "1/2 \<le> z \<and> z \<le> 5 \<Longrightarrow> 1/2 \<le> zoom_step z e \<and> zoom_step z e \<le> 5"
  by (cases e) (auto simp: handleZoomIn_def handleZoomOut_def handleResetZoom_def)

lemma zoom_after_range:
  "1/2 \<le> z \<and> z \<le> 5 \<Longrightarrow> 1/2 \<le> zoom_after z es \<and> zoom_after z es \<le> 5"
proof (induction es arbitrary: z)
  case Nil
  then show ?case by simp
next
  case (Cons e es)
  from Cons.prems have "1/2 \<le> zoom_step z e \<and> zoom_step z e \<le> 5"
    by (rule zoom_step_range)
  then show ?case using Cons.IH by simp
qed

text \<open>
  C10: starting from the initial zoom 1, after any finite sequence of zoom-in, zoom-out
  and reset events the zoom factor lies in the interval from 0.5 to 5.
\<close>

theorem zoom_always_in_range:
  "1/2 \<le> zoom_after initial_zoom es \<and> zoom_after initial_zoom es \<le> 5"
  using zoom_after_range [of initial_zoom es] by (simp add: initial_zoom_def)

subsection \<open>Value normalizer\<close>

lemma finiteValues_map_Fin: "finiteValues (map Fin rs) = rs"
  by (induction rs) auto

lemma Math_min_const: "xs \<noteq> [] \<Longrightarrow> \<forall>x\<in>set xs. x = c \<Longrightarrow> Math_min xs = c"
  unfolding Math_min_def
  by (metis List.finite_set Min_in set_empty)

lemma Math_max_const: "xs \<noteq> [] \<Longrightarrow> \<forall>x\<in>set xs. x = c \<Longrightarrow> Math_max xs = c"
  unfolding Math_max_def
  by (metis List.finite_set Max_in set_empty)

text \<open>
  The first file maps a list of equal finite values to 0.5 under linear scale. No
  arithmetic is involved: the two extremes are compared and the constant is returned.
\<close>

lemma normalizeValues_equal_linear:
  assumes "\<forall>r\<in>set rs. r = c"
  shows "normalizeValues (map Fin rs) Linear = map (\<lambda>r. 1/2) rs"
proof (cases "rs = []")
  case True
  then show ?thesis by (simp add: normalizeValues_def)
next
  case False
  then show ?thesis
    using Math_min_const [OF False assms] Math_max_const [OF False assms]
    by (simp add: normalizeValues_def finiteValues_map_Fin Let_def comp_def)
qed

text \<open>The second file maps a list of equal values to 0, under either scale mode.\<close>

lemma normalizeValues_part000_equal:
  assumes "\<forall>r\<in>set rs. r = c"
  shows "normalizeValues_part000 rs sc = map (\<lambda>r. 0) rs"
proof (cases "rs = []")
  case True
  then show ?thesis by (simp add: normalizeValues_part000_def)
next
  case False
  let ?ls = "map (\<lambda>v. ln (max v 1)) rs"
  have ne: "?ls \<noteq> []" using False by simp
  have eq: "\<forall>x\<in>set ?ls. x = ln (max c 1)" using assms by auto
  show ?thesis
    using False Math_min_const [OF False assms] Math_max_const [OF False assms]
      Math_min_const [OF ne eq] Math_max_const [OF ne eq]
    by (simp add: normalizeValues_part000_def Let_def comp_def)
qed

text \<open>
  C1: when all inputs are equal the first file maps every finite input to 0.5
  (\<open>normalizeValues_equal_linear\<close>), as the claim says. The second file has
  \<^verbatim>\<open>max === min ? 0\<close> and maps them to 0 (\<open>normalizeValues_part000_equal\<close>): the two equal
  values 3 and 3 under linear scale give 0 and 0.
\<close>

theorem normalizeValues_part000_equal_maps_to_zero:
  "normalizeValues_part000 [3, 3] Linear = [0, 0]
   \<and> normalizeValues [Fin 3, Fin 3] Linear = [1/2, 1/2]"
  by (simp add: normalizeValues_def normalizeValues_part000_def Math_min_def Math_max_def)

subsection \<open>Coordinate mapper\<close>


lemma mapX_log_formula:
  assumes "0 < lo" "lo < hi" "0 < v"
  shows "mapX origin w (Bound lo, Bound hi) Log v
         = origin + (log 10 v - log 10 lo) / (log 10 hi - log 10 lo) * w"
proof -
  from assms have "log 10 lo < log 10 hi" by simp
  then show ?thesis using assms by (simp add: Let_def)
qed




text \<open>
  In the first file a value that is not positive is mapped to the origin under log
  scale, whatever the domain: the left edge for \<open>mapX\<close>, the bottom edge for \<open>mapY\<close>.
\<close>

lemma mapX_log_fails_closed:
  assumes "v \<le> 0"
  shows "mapX origin w xDomain Log v = origin"
proof (cases xDomain)
  case (Pair a b)
  then show ?thesis using assms by (cases a; cases b) simp_all
qed

lemma mapY_log_fails_closed:
  assumes "v \<le> 0"
  shows "mapY origin h yDomain Log v = origin + h"
proof (cases yDomain)
  case (Pair a b)
  then show ?thesis using assms by (cases a; cases b) simp_all
qed



lemma screenX_part000_formula:
  assumes "lo < hi"
  shows "screenX_part000 m w (lo, hi) v = Some (m + (v - lo) / (hi - lo) * w)"
  using assms by (simp add: screenX_part000_def)


lemma log10_100: "log 10 100 = (2::real)"
proof -
  have "log 10 ((10::real) ^ 2) = 2" by (simp only: log_pow_cancel)
  then show ?thesis by simp
qed

text \<open>
  The domain that the second file computes for the x values 1, 10 and 100 under log
  scale: the natural logarithms are padded by a tenth of their range and 10 is raised to
  the results.
\<close>

lemma ln_100_ge_4: "4 \<le> ln (100::real)"
proof -
  have "exp (4::real) = exp 1 ^ 4"
    using exp_of_nat2_mult [of "1::real" 4] by simp
  also have "\<dots> \<le> 3 ^ 4" by (rule power_mono) (use exp_le in simp_all)
  also have "\<dots> \<le> (100::real)" by simp
  finally have "exp 4 \<le> (100::real)" .
  then show ?thesis by (simp add: ln_ge_iff)
qed

lemma getDomain_part000_1_10_100:
  "getDomain_part000 [1, 10, 100] Log
   = (10 powr (- (ln 100 / 10)), 10 powr (11 * ln 100 / 10))"
proof -
  have pos: "0 < ln (10::real)" "ln (10::real) \<le> ln 100" by simp_all
  have mn: "Math_min [0, ln 10, ln (100::real)] = 0"
    using pos by (simp add: Math_min_def min_def)
  have mx: "Math_max [0, ln 10, ln (100::real)] = ln 100"
    using pos by (simp add: Math_max_def max_def)
  have nz: "ln (100::real) \<noteq> 0" using ln_100_ge_4 by simp
  show ?thesis
    using mn mx nz by (simp add: getDomain_part000_def Let_def js_or_def field_simps)
qed

text \<open>
  C2: in the first file \<open>mapX\<close> under log scale returns the origin plus the logarithmic
  fraction of the size, on a domain with positive bounds and for a positive value, and
  returns the origin for a value that is not positive (\<open>mapX_log_formula\<close>,
  \<open>mapX_log_fails_closed\<close>). The mapper of the second file is the linear formula under
  either scale mode. For the x values 1, 10 and 100 under log scale, the domain being
  the one the second file computes for them, the left margin 60 and a plot 100 wide, it
  maps the value 100 to less than 61; the log formula on the same domain, which is what
  \<open>mapX\<close> computes, gives more than 68.
\<close>

theorem screenX_part000_ignores_log_scale:
  "(\<exists>p. screenX_part000 60 100 (getDomain_part000 [1, 10, 100] Log) 100 = Some p \<and> p < 61)
   \<and> 68 < 60 + (log 10 100 - log 10 (fst (getDomain_part000 [1, 10, 100] Log)))
               / (log 10 (snd (getDomain_part000 [1, 10, 100] Log))
                  - log 10 (fst (getDomain_part000 [1, 10, 100] Log))) * 100
   \<and> 68 < mapX 60 100 (Bound (fst (getDomain_part000 [1, 10, 100] Log)),
                        Bound (snd (getDomain_part000 [1, 10, 100] Log))) Log 100"
proof -
  define L :: real where "L = ln 100"
  define lo :: real where "lo = 10 powr (- (L / 10))"
  define hi :: real where "hi = 10 powr (11 * L / 10)"
  have L4: "4 \<le> L" unfolding L_def by (rule ln_100_ge_4)
  have d: "getDomain_part000 [1, 10, 100] Log = (lo, hi)"
    unfolding lo_def hi_def L_def by (rule getDomain_part000_1_10_100)
  have lo_pos: "0 < lo" unfolding lo_def by simp
  have "(10::real) powr 4 \<le> 10 powr (11 * L / 10)"
    by (rule powr_mono) (use L4 in simp_all)
  moreover have "(10::real) powr 4 = 10000"
    using powr_realpow [of "10::real" 4] by simp
  ultimately have hi_big: "10000 \<le> hi" unfolding hi_def by simp
  have lo_le: "lo \<le> 1"
  proof -
    have "(10::real) powr (- (L / 10)) \<le> 10 powr 0"
      by (rule powr_mono) (use L4 in simp_all)
    then show ?thesis unfolding lo_def by simp
  qed
  have lt: "lo < hi" using lo_le hi_big by simp
  have gap: "(100 - lo) * 100 < hi - lo" using lo_pos hi_big by simp
  have "(100 - lo) / (hi - lo) * 100 < 1"
  proof -
    have "0 < hi - lo" using lt by simp
    then show ?thesis using gap by (simp add: divide_simps)
  qed
  then have linear: "60 + (100 - lo) / (hi - lo) * 100 < 61" by simp
  have loglo: "log 10 lo = - (L / 10)" unfolding lo_def by simp
  have loghi: "log 10 hi = 11 * L / 10" unfolding hi_def by simp
  have Lpos: "0 < L" using L4 by simp
  define t :: real where "t = 500 / (3 * L)"
  have tpos: "0 < t" unfolding t_def using Lpos by simp
  have "(2 + L / 10) / (12 * L / 10) * 100 = t + 25 / 3"
    unfolding t_def using Lpos by (simp add: field_simps)
  then have "68 < 60 + (2 + L / 10) / (12 * L / 10) * 100"
    using tpos by linarith
  moreover have "(log 10 100 - log 10 lo) / (log 10 hi - log 10 lo) = (2 + L / 10) / (12 * L / 10)"
    unfolding loglo loghi log10_100 by (simp add: field_simps)
  ultimately have logf: "68 < 60 + (log 10 100 - log 10 lo) / (log 10 hi - log 10 lo) * 100"
    by simp
  have m: "mapX 60 100 (Bound lo, Bound hi) Log 100
           = 60 + (log 10 100 - log 10 lo) / (log 10 hi - log 10 lo) * 100"
    by (rule mapX_log_formula) (use lo_pos lt in simp_all)
  show ?thesis
    unfolding d fst_conv snd_conv m screenX_part000_formula [OF lt]
    using linear logf by simp
qed




subsection \<open>Domain calculator\<close>

lemma Math_min_in: "xs \<noteq> [] \<Longrightarrow> Math_min xs \<in> set xs"
  unfolding Math_min_def by (simp add: Min_in)

text \<open>
  In the first file the log domain is the least positive value divided by 1.5 and the
  greatest multiplied by 1.5, and \<^verbatim>\<open>'auto'\<close> when no value is finite and positive.
\<close>

lemma getDomain_log_bounds:
  assumes "filter (\<lambda>v. 0 < v) (finiteValues vals) \<noteq> []"
  shows "getDomain vals Log =
          (Bound (Math_min (filter (\<lambda>v. 0 < v) (finiteValues vals)) / 1.5),
           Bound (Math_max (filter (\<lambda>v. 0 < v) (finiteValues vals)) * 1.5))"
proof -
  let ?pv = "filter (\<lambda>v. 0 < v) (finiteValues vals)"
  from Math_min_in [OF assms] have "0 < Math_min ?pv" by simp
  moreover from assms have "finiteValues vals \<noteq> []" by auto
  ultimately show ?thesis using assms by (simp add: getDomain_def Let_def)
qed

lemma getDomain_log_auto:
  assumes "filter (\<lambda>v. 0 < v) (finiteValues vals) = []"
  shows "getDomain vals Log = (Auto, Auto)"
  using assms by (simp add: getDomain_def Let_def)

lemma getDomain_empty: "getDomain [] sc = (Auto, Auto)"
  by (simp add: getDomain_def)

lemma powr_tenth_ne: "(10::real) powr (1/10) \<noteq> 3/2"
proof
  assume eq: "(10::real) powr (1/10) = 3/2"
  have "((10::real) powr (1/10)) ^ 10 = 10 powr ((1/10) * 10)"
    by (simp only: powr_power) simp
  then have "((10::real) powr (1/10)) ^ 10 = 10" by simp
  then have "((3::real)/2) ^ 10 = 10" unfolding eq .
  then show False by (simp add: power_divide)
qed

text \<open>
  C4: the first file does what the claim says (\<open>getDomain_log_bounds\<close>,
  \<open>getDomain_log_auto\<close>, \<open>getDomain_empty\<close>). The second file returns the numeric domain
  from 0 to 1 for an empty input, and for the single value 1 under log scale it returns
  10 to the powers -0.1 and 0.1, not 1/1.5 and 1.5.
\<close>

theorem getDomain_part000_no_auto_sentinel:
  "getDomain_part000 [] Log = (0, 1)
   \<and> getDomain [] Log = (Auto, Auto)
   \<and> getDomain_part000 [1] Log = (10 powr (- (1/10)), 10 powr (1/10))
   \<and> getDomain [Fin 1] Log = (Bound (1 / 1.5), Bound (1 * 1.5))
   \<and> (10::real) powr (1/10) \<noteq> 1 * 1.5"
  using powr_tenth_ne
  by (simp add: getDomain_part000_def getDomain_def Math_min_def Math_max_def js_or_def Let_def)

lemma getDomain_linear_shape:
  assumes "rs \<noteq> []"
  shows "getDomain (map Fin rs) Linear =
      (let mn = Min (set rs); mx = Max (set rs);
           pad = (if mn = mx then (if \<bar>mn * 0.1\<bar> = 0 then 1 else \<bar>mn * 0.1\<bar>)
                  else (mx - mn) * 0.1)
       in (Bound (mn - pad), Bound (mx + pad)))"
  using assms
  by (auto simp: getDomain_def finiteValues_map_Fin Let_def js_or_def Math_min_def
      Math_max_def)

lemma getDomain_part000_linear_shape:
  assumes "rs \<noteq> []"
  shows "getDomain_part000 rs Linear =
      (let mn = Min (set rs); mx = Max (set rs);
           pad = (if (mx - mn) * 0.1 = 0 then 0.1 else (mx - mn) * 0.1)
       in (mn - pad, mx + pad))"
  using assms
  by (auto simp: getDomain_part000_def Let_def js_or_def Math_min_def Math_max_def)

text \<open>
  C5, as stated, fails: for the single value 5 the first file pads by 0.5 and returns the
  domain from 4.5 to 5.5, where the claim's pad, the greater of 0.5 and 1, gives 4 to 6.
\<close>

theorem getDomain_degenerate_counterexample:
  "getDomain [Fin 5] Linear = (Bound (9/2), Bound (11/2))
   \<and> (Bound (5 - max (0.1 * \<bar>5\<bar>) 1), Bound (5 + max (0.1 * \<bar>5\<bar>) 1))
       = (Bound 4, Bound (6::real))"
  by (simp add: getDomain_def Math_min_def Math_max_def js_or_def)

text \<open>
  C5, amended: for every non-empty list of finite values under linear scale the domain is
  the least value minus the pad and the greatest value plus the pad, where the pad is a
  product that the source computes and a fallback replaces that product only when it is
  zero. In the first file the pad is the product of the difference of the two extremes
  and 0.1 when they differ, with no fallback, and the absolute value of the product of
  the value and 0.1 when they are equal, with the fallback 1. In the second file the pad
  is the product of the difference and 0.1, with the fallback 0.1.
\<close>

theorem getDomain_linear_padding:
  assumes "rs \<noteq> []"
  shows "getDomain (map Fin rs) Linear =
      (let mn = Min (set rs); mx = Max (set rs);
           pad = (if mn = mx then (if \<bar>mn * 0.1\<bar> = 0 then 1 else \<bar>mn * 0.1\<bar>)
                  else (mx - mn) * 0.1)
       in (Bound (mn - pad), Bound (mx + pad)))
    \<and> getDomain_part000 rs Linear =
      (let mn = Min (set rs); mx = Max (set rs);
           pad = (if (mx - mn) * 0.1 = 0 then 0.1 else (mx - mn) * 0.1)
       in (mn - pad, mx + pad))"
  using getDomain_linear_shape [OF assms] getDomain_part000_linear_shape [OF assms]
  by simp

theorem getDomain_linear_padding_witness:
  "getDomain [Fin 0, Fin 10] Linear = (Bound (-1), Bound 11)
   \<and> getDomain_part000 [0, 10] Linear = (-1, 11)
   \<and> getDomain [Fin 5, Fin 5] Linear = (Bound (9/2), Bound (11/2))
   \<and> getDomain_part000 [5, 5] Linear = (49/10, 51/10)
   \<and> getDomain [Fin 0] Linear = (Bound (-1), Bound 1)"
  using getDomain_linear_padding [of "[0, 10]"] getDomain_linear_padding [of "[5, 5]"]
    getDomain_linear_padding [of "[0]"]
  by (simp add: Let_def)

subsection \<open>Density estimator\<close>

lemma density_loop_count:
  "density_loop pt radius ps count =
     count + length (filter (\<lambda>p. (px p - px pt) * (px p - px pt) + (py p - py pt) * (py p - py pt)
                                   < radius * radius) ps)"
  by (induction ps arbitrary: count) (simp_all add: Let_def)

lemma sqrt_less_iff_square:
  fixes x r :: real
  assumes "0 \<le> x" "0 \<le> r"
  shows "(sqrt x < r) = (x < r * r)"
proof -
  have "(sqrt x < r) = (sqrt x < sqrt (r * r))" using assms by simp
  also have "\<dots> = (x < r * r)" by (rule real_sqrt_less_iff)
  finally show ?thesis .
qed

lemma within_radius_iff:
  assumes "0 \<le> radius"
  shows "((px p - px pt) * (px p - px pt) + (py p - py pt) * (py p - py pt) < radius * radius)
         = (euclidean p pt < radius)"
  unfolding euclidean_def power2_eq_square
  by (rule sqrt_less_iff_square [symmetric]) (use assms in simp_all)

lemma filter_remove1_length:
  "x \<in> set xs \<Longrightarrow> P x \<Longrightarrow> Suc (length (filter P (remove1 x xs))) = length (filter P xs)"
  by (induction xs) auto

lemma calculateDensity_as_filter:
  assumes "0 \<le> radius"
  shows "calculateDensity pt allPoints radius
         = length (filter (\<lambda>p. euclidean p pt < radius) allPoints) - 1"
  by (simp add: calculateDensity_def density_loop_count within_radius_iff [OF assms] Let_def)

lemma calculateDensity_meets_spec:
  assumes "pt \<in> set allPoints" "0 \<le> radius"
  shows "calculateDensity pt allPoints radius = density_spec pt allPoints radius"
proof (cases "0 < radius")
  case True
  then have self: "euclidean pt pt < radius" by (simp add: euclidean_def)
  show ?thesis
    unfolding calculateDensity_as_filter [OF assms(2)]
    using filter_remove1_length [of pt allPoints "\<lambda>p. euclidean p pt < radius", OF assms(1) self]
    by (simp add: density_spec_def)
next
  case False
  have "\<And>p. \<not> euclidean p pt < radius"
  proof -
    fix p
    have "0 \<le> euclidean p pt" by (simp add: euclidean_def)
    with False show "\<not> euclidean p pt < radius" by simp
  qed
  then show ?thesis
    unfolding calculateDensity_as_filter [OF assms(2)] by (simp add: density_spec_def)
qed

lemma calculateDensity_part000_counts_self:
  assumes "pt \<in> set allPoints" "0 < radius"
  shows "calculateDensity_part000 pt allPoints radius = density_spec pt allPoints radius + 1"
proof -
  have self: "euclidean pt pt < radius" using assms(2) by (simp add: euclidean_def)
  show ?thesis
    using filter_remove1_length [of pt allPoints "\<lambda>p. euclidean p pt < radius", OF assms(1) self]
    by (simp add: calculateDensity_part000_def density_spec_def euclidean_def)
qed

text \<open>
  C6: the first file returns the number the claim describes, for a point among the
  anchors and a radius that is not negative (\<open>calculateDensity_meets_spec\<close>). The second
  file counts the point itself (\<open>calculateDensity_part000_counts_self\<close>): for the single
  anchor at the origin and the radius 5 it returns 1, where no other anchor exists.
\<close>

theorem calculateDensity_part000_includes_self:
  "calculateDensity_part000 \<lparr>px = 0, py = 0\<rparr> [\<lparr>px = 0, py = 0\<rparr>] 5 = 1
   \<and> density_spec \<lparr>px = 0, py = 0\<rparr> [\<lparr>px = 0, py = 0\<rparr>] 5 = 0
   \<and> calculateDensity \<lparr>px = 0, py = 0\<rparr> [\<lparr>px = 0, py = 0\<rparr>] 5 = 0"
  by (simp add: calculateDensity_part000_def density_spec_def calculateDensity_def)

subsection \<open>Scatter points\<close>

lemma keep_iff_qualifies:
  "(v \<noteq> Null \<and> Number_isFinite v \<and> (sc = Linear \<or> gt_zero v)) = qualifies sc v"
  by (cases v; cases sc) simp_all

lemma validPoints_companies:
  "map rp_company (validPoints xOf yOf zOf xScale yScale zScale data)
   = filter (\<lambda>c. qualifies xScale (xOf c) \<and> qualifies yScale (yOf c) \<and> qualifies zScale (zOf c))
       data"
proof -
  have "\<And>c. (xOf c \<noteq> Null \<and> yOf c \<noteq> Null \<and> zOf c \<noteq> Null \<and>
        Number_isFinite (xOf c) \<and> Number_isFinite (yOf c) \<and> Number_isFinite (zOf c) \<and>
        (xScale = Linear \<or> gt_zero (xOf c)) \<and>
        (yScale = Linear \<or> gt_zero (yOf c)) \<and>
        (zScale = Linear \<or> gt_zero (zOf c)))
       = (qualifies xScale (xOf c) \<and> qualifies yScale (yOf c) \<and> qualifies zScale (zOf c))"
    using keep_iff_qualifies [symmetric] by auto
  then show ?thesis
    by (simp add: validPoints_def rawPoints_def filter_map comp_def)
qed

lemma validPoints_fields:
  assumes "p \<in> set (validPoints xOf yOf zOf xScale yScale zScale data)"
  shows "rp_x p = xOf (rp_company p) \<and> rp_y p = yOf (rp_company p) \<and> rp_z p = zOf (rp_company p)"
  using assms by (auto simp: validPoints_def rawPoints_def)

lemma map_fst_zip_indices:
  fixes xs :: "'a list" and f :: "'a \<Rightarrow> 'b"
  shows "map (\<lambda>p. f (fst p)) (zip xs [0 ..< length xs]) = map f xs"
proof -
  have eq: "map (\<lambda>p. f (fst p)) zs = map f (map fst zs)" for zs :: "('a \<times> nat) list"
    by (simp add: comp_def)
  show ?thesis unfolding eq by simp
qed

lemma transformedData_companies:
  "map sp_company (transformedData xOf yOf zOf xScale yScale zScale data)
   = map rp_company (validPoints xOf yOf zOf xScale yScale zScale data)"
  by (simp add: transformedData_def Let_def case_prod_unfold comp_def map_fst_zip_indices)

lemma transformedData_fields:
  assumes "p \<in> set (transformedData xOf yOf zOf xScale yScale zScale data)"
  shows "sp_x p = xOf (sp_company p) \<and> sp_y p = yOf (sp_company p) \<and> sp_z p = zOf (sp_company p)"
proof -
  from assms obtain q where q: "q \<in> set (validPoints xOf yOf zOf xScale yScale zScale data)"
    and p: "sp_x p = rp_x q" "sp_y p = rp_y q" "sp_z p = rp_z q" "sp_company p = rp_company q"
    by (auto simp: transformedData_def Let_def dest: set_zip_leftD)
  then show ?thesis using validPoints_fields [OF q] by simp
qed

text \<open>
  In the first file the companies of \<open>transformedData\<close> are, in order, the companies whose
  three values qualify, and the values of a point are those read off its company.
\<close>

lemma transformedData_inclusion:
  "map sp_company (transformedData xOf yOf zOf xScale yScale zScale data)
   = filter (\<lambda>c. qualifies xScale (xOf c) \<and> qualifies yScale (yOf c) \<and> qualifies zScale (zOf c))
       data"
  by (simp only: transformedData_companies validPoints_companies)

text \<open>
  C3: the first file does what the claim says (\<open>transformedData_inclusion\<close>,
  \<open>transformedData_fields\<close>). The filter of the second file has no test for finite
  numbers: under linear scales it keeps a company whose x value is NaN, infinite or
  undefined, which the first file drops.
\<close>

theorem validPoints_part000_keeps_non_finite:
  "map rp_company (validPoints_part000
      (\<lambda>c. if c = ''AAA'' then NaN else if c = ''BBB'' then PosInf else Undefined)
      (\<lambda>c. Fin 1) (\<lambda>c. Fin 1) Linear Linear Linear [''AAA'', ''BBB'', ''CCC''])
    = [''AAA'', ''BBB'', ''CCC'']
   \<and> transformedData
      (\<lambda>c. if c = ''AAA'' then NaN else if c = ''BBB'' then PosInf else Undefined)
      (\<lambda>c. Fin 1) (\<lambda>c. Fin 1) Linear Linear Linear [''AAA'', ''BBB'', ''CCC''] = []"
  by (simp add: validPoints_part000_def transformedData_def validPoints_def rawPoints_def
      normalizeValues_def)

subsection \<open>Rendering the settled labels\<close>

lemma renderLabel_line_iff:
  "(el_line (renderLabel l) \<noteq> None)
   = (5 < sqrt ((sl_x l - sl_dataX l) ^ 2 + (sl_y l - sl_dataY l) ^ 2))"
  by (simp add: renderLabel_def Let_def power2_eq_square)

lemma renderLabel_line_ends:
  "el_line (renderLabel l) = Some seg \<Longrightarrow> seg = (sl_dataX l, sl_dataY l, sl_x l, sl_y l)"
  by (auto simp: renderLabel_def Let_def split: if_splits)

lemma renderLabel_drawn:
  "el_key (renderLabel l) = sl_id l \<and> el_text (renderLabel l) = (sl_x l, sl_y l, sl_text l)
   \<and> el_rect (renderLabel l)
      = (sl_x l - sl_width l / 2 - 2, sl_y l - sl_height l / 2 - 1, sl_width l + 4, sl_height l + 2)"
  by (simp add: renderLabel_def Let_def)

lemma labelElements_each:
  "length (labelElements ls) = length ls
   \<and> (\<forall>i<length ls. labelElements ls ! i = renderLabel (ls ! i))"
  by (simp add: labelElements_def)

text \<open>
  C8: the first file draws every settled label and adds the leader line exactly when the
  label centre is more than 5 away from the anchor (\<open>labelElements_each\<close>,
  \<open>renderLabel_line_iff\<close>, \<open>renderLabel_drawn\<close>). The second file draws nothing for a
  label closer than 15 to its anchor: of two labels, 3 and 10 away from their anchors,
  it draws neither, where the first file draws both, the second one with its line.
\<close>

theorem labelElements_part000_drops_near_labels:
  "labelElements_part000 60 20
     [\<lparr>s0_id = ''AAA'', s0_x = 100, s0_y = 100, s0_width = 18, s0_height = 14,
       s0_dataX = Some 160, s0_dataY = Some 123\<rparr>,
      \<lparr>s0_id = ''BBB'', s0_x = 200, s0_y = 100, s0_width = 18, s0_height = 14,
       s0_dataX = Some 260, s0_dataY = Some 130\<rparr>] = []
   \<and> map el_line (labelElements
     [\<lparr>sl_id = ''AAA'', sl_text = ''AAA'', sl_x = 160, sl_y = 120, sl_width = 18, sl_height = 14,
       sl_dataX = 160, sl_dataY = 123\<rparr>,
      \<lparr>sl_id = ''BBB'', sl_text = ''BBB'', sl_x = 260, sl_y = 120, sl_width = 18, sl_height = 14,
       sl_dataX = 260, sl_dataY = 130\<rparr>]) = [None, Some (260, 130, 260, 120)]"
proof -
  have "sqrt 9 < 15" "sqrt 100 < 15" "\<not> 5 < sqrt 9" "5 < sqrt 100"
    using real_sqrt_less_iff [of 9 225] real_sqrt_less_iff [of 100 225]
      real_sqrt_less_iff [of 25 9] real_sqrt_less_iff [of 25 100]
      real_sqrt_abs2 [of 15] real_sqrt_abs2 [of 5]
    by simp_all
  then show ?thesis
    by (simp add: labelElements_part000_def renderLabel_part000_def labelElements_def
        renderLabel_def List.map_filter_def js_or_def Let_def)
qed

subsection \<open>The search for a free label position\<close>

text \<open>
  The two overlap tests of the source are the overlap of rectangles under a padding: the
  first file reads a label as a rectangle given by its centre, the second as one given
  by its corner.
\<close>

lemma doLabelsOverlap_boxes:
  "doLabelsOverlap a b padding
   = boxes_overlap padding
       (box_centred (lp_x a) (lp_y a) (lp_width a) (lp_height a))
       (box_centred (lp_x b) (lp_y b) (lp_width b) (lp_height b))"
  by (auto simp: doLabelsOverlap_def boxes_overlap_def box_centred_def)

lemma doLabelsOverlap_part000_boxes:
  "doLabelsOverlap_part000 a b padding
   = boxes_overlap padding
       (box_cornered (lp_x a) (lp_y a) (lp_width a) (lp_height a))
       (box_cornered (lp_x b) (lp_y b) (lp_width b) (lp_height b))"
  by (auto simp: doLabelsOverlap_part000_def boxes_overlap_def box_cornered_def)

text \<open>
  The rectangle that is tested for a candidate position is the one centred there, as wide
  as the length of the label times the font size times 0.6 and as high as the font size
  plus 4, in both files.
\<close>

lemma newLabelRect_box:
  "box_centred (lp_x (newLabelRect lbl fontSize cx cy)) (lp_y (newLabelRect lbl fontSize cx cy))
     (lp_width (newLabelRect lbl fontSize cx cy)) (lp_height (newLabelRect lbl fontSize cx cy))
   = box_centred cx cy (real (length lbl) * fontSize * 0.6) (fontSize + 4)"
  by (simp add: newLabelRect_def)

lemma newLabel_part000_box:
  "box_cornered (lp_x (newLabel_part000 lbl fontSize pos)) (lp_y (newLabel_part000 lbl fontSize pos))
     (lp_width (newLabel_part000 lbl fontSize pos)) (lp_height (newLabel_part000 lbl fontSize pos))
   = box_centred (fst pos) (snd pos) (real (length lbl) * fontSize * 0.6) (fontSize + 4)"
  by (simp add: newLabel_part000_def box_cornered_def box_centred_def Let_def field_simps)

lemma tryOffsets_Some:
  assumes "tryOffsets baseX baseY lbl existingLabels fontSize padding offsets = Some pos"
  shows "(\<exists>off\<in>set offsets. pos = (baseX + fst off, baseY + snd off))
         \<and> (\<forall>e\<in>set existingLabels.
               \<not> doLabelsOverlap e (newLabelRect lbl fontSize (fst pos) (snd pos)) padding)"
  using assms
proof (induction offsets)
  case Nil
  then show ?case by simp
next
  case (Cons off offsets)
  obtain dx dy where off: "off = (dx, dy)" by (cases off)
  show ?case
  proof (cases "list_ex (\<lambda>existing.
      doLabelsOverlap existing (newLabelRect lbl fontSize (baseX + dx) (baseY + dy)) padding)
      existingLabels")
    case True
    with Cons.prems off
    have "tryOffsets baseX baseY lbl existingLabels fontSize padding offsets = Some pos"
      by (simp add: Let_def)
    from Cons.IH [OF this] show ?thesis by auto
  next
    case False
    with Cons.prems off have "pos = (baseX + dx, baseY + dy)" by (simp add: Let_def)
    with False off show ?thesis by (auto simp: list_ex_iff)
  qed
qed

lemma tryOffsets_None:
  assumes "\<forall>off\<in>set offsets. \<exists>e\<in>set existingLabels.
      doLabelsOverlap e (newLabelRect lbl fontSize (baseX + fst off) (baseY + snd off)) padding"
  shows "tryOffsets baseX baseY lbl existingLabels fontSize padding offsets = None"
  using assms
proof (induction offsets)
  case Nil
  then show ?case by simp
next
  case (Cons off offsets)
  obtain dx dy where off: "off = (dx, dy)" by (cases off)
  from Cons.prems off have "list_ex (\<lambda>existing.
      doLabelsOverlap existing (newLabelRect lbl fontSize (baseX + dx) (baseY + dy)) padding)
      existingLabels"
    by (auto simp: list_ex_iff)
  moreover from Cons have "tryOffsets baseX baseY lbl existingLabels fontSize padding offsets = None"
    by simp
  ultimately show ?case using off by (simp add: Let_def)
qed

lemma tryPositions_part000_Some:
  assumes "tryPositions_part000 lbl existingLabels fontSize padding positions = Some pos"
  shows "pos \<in> set positions
         \<and> (\<forall>e\<in>set existingLabels.
               \<not> doLabelsOverlap_part000 e (newLabel_part000 lbl fontSize pos) padding)"
  using assms
  by (induction positions) (auto simp: list_ex_iff split: if_splits)

lemma tryPositions_part000_None:
  assumes "\<forall>p\<in>set positions. \<exists>e\<in>set existingLabels.
      doLabelsOverlap_part000 e (newLabel_part000 lbl fontSize p) padding"
  shows "tryPositions_part000 lbl existingLabels fontSize padding positions = None"
  using assms
  by (induction positions) (auto simp: list_ex_iff)

lemma findBestLabelPosition_Some:
  assumes "findBestLabelPosition baseX baseY lbl existingLabels fontSize padding = Some pos"
  shows "(\<exists>off\<in>set potentialOffsets. pos = (baseX + fst off, baseY + snd off))
    \<and> (\<forall>e\<in>set existingLabels.
         \<not> boxes_overlap padding
             (box_centred (lp_x e) (lp_y e) (lp_width e) (lp_height e))
             (box_centred (fst pos) (snd pos) (real (length lbl) * fontSize * 0.6)
                (fontSize + 4)))"
  using tryOffsets_Some [OF assms [unfolded findBestLabelPosition_def]]
  by (simp add: doLabelsOverlap_boxes newLabelRect_box)

lemma findBestLabelPosition_None:
  assumes "\<forall>off\<in>set potentialOffsets. \<exists>e\<in>set existingLabels.
      boxes_overlap padding
        (box_centred (lp_x e) (lp_y e) (lp_width e) (lp_height e))
        (box_centred (baseX + fst off) (baseY + snd off) (real (length lbl) * fontSize * 0.6)
           (fontSize + 4))"
  shows "findBestLabelPosition baseX baseY lbl existingLabels fontSize padding = None"
  unfolding findBestLabelPosition_def
  by (rule tryOffsets_None) (use assms in \<open>simp add: doLabelsOverlap_boxes newLabelRect_box\<close>)

lemma findBestLabelPosition_part000_Some:
  assumes "findBestLabelPosition_part000 baseX baseY lbl existingLabels fontSize padding = Some pos"
  shows "pos \<in> set (positions_part000 baseX baseY)
    \<and> (\<forall>e\<in>set existingLabels.
         \<not> boxes_overlap padding
             (box_cornered (lp_x e) (lp_y e) (lp_width e) (lp_height e))
             (box_centred (fst pos) (snd pos) (real (length lbl) * fontSize * 0.6)
                (fontSize + 4)))"
  using tryPositions_part000_Some [OF assms [unfolded findBestLabelPosition_part000_def]]
  by (simp add: doLabelsOverlap_part000_boxes newLabel_part000_box)

lemma findBestLabelPosition_part000_None:
  assumes "\<forall>p\<in>set (positions_part000 baseX baseY). \<exists>e\<in>set existingLabels.
      boxes_overlap padding
        (box_cornered (lp_x e) (lp_y e) (lp_width e) (lp_height e))
        (box_centred (fst p) (snd p) (real (length lbl) * fontSize * 0.6) (fontSize + 4))"
  shows "findBestLabelPosition_part000 baseX baseY lbl existingLabels fontSize padding = None"
  unfolding findBestLabelPosition_part000_def
  by (rule tryPositions_part000_None)
    (use assms in \<open>simp add: doLabelsOverlap_part000_boxes newLabel_part000_box\<close>)

text \<open>
  C9: when \<open>findBestLabelPosition\<close> returns a position, it is one of the twelve
  candidates, and the rectangle centred there, as wide as the label's length times the
  font size times 0.6 and as high as the font size plus 4, overlaps the rectangle of no
  existing label under the padding; when for each of the twelve candidates that
  rectangle overlaps the rectangle of some existing label, it returns null. Both files;
  the rectangle of an existing label is given by its centre in the first file and by its
  corner in the second.
\<close>

theorem findBestLabelPosition_free_or_null:
  "(findBestLabelPosition baseX baseY lbl existingLabels fontSize padding = Some pos \<longrightarrow>
      (\<exists>off\<in>set potentialOffsets. pos = (baseX + fst off, baseY + snd off))
      \<and> (\<forall>e\<in>set existingLabels.
           \<not> boxes_overlap padding
               (box_centred (lp_x e) (lp_y e) (lp_width e) (lp_height e))
               (box_centred (fst pos) (snd pos) (real (length lbl) * fontSize * 0.6)
                  (fontSize + 4))))
   \<and> ((\<forall>off\<in>set potentialOffsets. \<exists>e\<in>set existingLabels.
         boxes_overlap padding
           (box_centred (lp_x e) (lp_y e) (lp_width e) (lp_height e))
           (box_centred (baseX + fst off) (baseY + snd off)
              (real (length lbl) * fontSize * 0.6) (fontSize + 4)))
       \<longrightarrow> findBestLabelPosition baseX baseY lbl existingLabels fontSize padding = None)
   \<and> (findBestLabelPosition_part000 baseX baseY lbl existingLabels fontSize padding = Some pos \<longrightarrow>
      pos \<in> set (positions_part000 baseX baseY)
      \<and> (\<forall>e\<in>set existingLabels.
           \<not> boxes_overlap padding
               (box_cornered (lp_x e) (lp_y e) (lp_width e) (lp_height e))
               (box_centred (fst pos) (snd pos) (real (length lbl) * fontSize * 0.6)
                  (fontSize + 4))))
   \<and> ((\<forall>p\<in>set (positions_part000 baseX baseY). \<exists>e\<in>set existingLabels.
         boxes_overlap padding
           (box_cornered (lp_x e) (lp_y e) (lp_width e) (lp_height e))
           (box_centred (fst p) (snd p) (real (length lbl) * fontSize * 0.6) (fontSize + 4)))
       \<longrightarrow> findBestLabelPosition_part000 baseX baseY lbl existingLabels fontSize padding = None)
   \<and> length potentialOffsets = 12 \<and> length (positions_part000 baseX baseY) = 12"
proof -
  have "length potentialOffsets = 12" "length (positions_part000 baseX baseY) = 12"
    by (simp_all add: potentialOffsets_def positions_part000_def)
  then show ?thesis
    using findBestLabelPosition_Some [of baseX baseY lbl existingLabels fontSize padding pos]
      findBestLabelPosition_None [of existingLabels padding baseX baseY lbl fontSize]
      findBestLabelPosition_part000_Some [of baseX baseY lbl existingLabels fontSize padding pos]
      findBestLabelPosition_part000_None [of baseX baseY existingLabels padding lbl fontSize]
    by blast
qed

theorem findBestLabelPosition_free_or_null_witness:
  "findBestLabelPosition 0 0 ''AB''
     [\<lparr>lp_id = ''CD'', lp_x = 0, lp_y = -15, lp_width = 12, lp_height = 14, lp_density = 0\<rparr>]
     10 5 = Some (0, 15)
   \<and> \<not> boxes_overlap 5 (box_centred 0 (-15) 12 14)
        (box_centred 0 15 (real (length ''AB'') * 10 * 0.6) (10 + 4))
   \<and> findBestLabelPosition_part000 0 0 ''AB''
     [\<lparr>lp_id = ''CD'', lp_x = 0, lp_y = -15, lp_width = 12, lp_height = 14, lp_density = 0\<rparr>]
     10 5 = Some (0, 15)
   \<and> \<not> boxes_overlap 5 (box_cornered 0 (-15) 12 14)
        (box_centred 0 15 (real (length ''AB'') * 10 * 0.6) (10 + 4))
   \<and> findBestLabelPosition 0 0 ''AB''
     [\<lparr>lp_id = ''EF'', lp_x = 0, lp_y = 0, lp_width = 1000, lp_height = 1000, lp_density = 0\<rparr>]
     10 5 = None
   \<and> findBestLabelPosition_part000 0 0 ''AB''
     [\<lparr>lp_id = ''GH'', lp_x = -500, lp_y = -500, lp_width = 1000, lp_height = 1000,
       lp_density = 0\<rparr>]
     10 5 = None"
proof -
  let ?cd = "\<lparr>lp_id = ''CD'', lp_x = 0, lp_y = -15, lp_width = 12, lp_height = 14,
              lp_density = 0\<rparr>"
  let ?ef = "\<lparr>lp_id = ''EF'', lp_x = 0, lp_y = 0, lp_width = 1000, lp_height = 1000,
              lp_density = 0\<rparr>"
  let ?gh = "\<lparr>lp_id = ''GH'', lp_x = -500, lp_y = -500, lp_width = 1000, lp_height = 1000,
              lp_density = 0\<rparr>"
  have found: "findBestLabelPosition 0 0 ''AB'' [?cd] 10 5 = Some (0, 15)"
    by (simp add: findBestLabelPosition_def potentialOffsets_def doLabelsOverlap_def
        newLabelRect_def Let_def)
  have found0: "findBestLabelPosition_part000 0 0 ''AB'' [?cd] 10 5 = Some (0, 15)"
    by (simp add: findBestLabelPosition_part000_def positions_part000_def
        doLabelsOverlap_part000_def newLabel_part000_def Let_def)
  have blocked: "\<forall>off\<in>set potentialOffsets. \<exists>e\<in>set [?ef].
      boxes_overlap 5 (box_centred (lp_x e) (lp_y e) (lp_width e) (lp_height e))
        (box_centred (0 + fst off) (0 + snd off) (real (length ''AB'') * 10 * 0.6) (10 + 4))"
    by (simp add: potentialOffsets_def boxes_overlap_def box_centred_def)
  have blocked0: "\<forall>p\<in>set (positions_part000 0 0). \<exists>e\<in>set [?gh].
      boxes_overlap 5 (box_cornered (lp_x e) (lp_y e) (lp_width e) (lp_height e))
        (box_centred (fst p) (snd p) (real (length ''AB'') * 10 * 0.6) (10 + 4))"
    by (simp add: positions_part000_def boxes_overlap_def box_centred_def box_cornered_def)
  show ?thesis
    using found found0 blocked blocked0
      findBestLabelPosition_free_or_null [of 0 0 "''AB''" "[?cd]" 10 5 "(0, 15)"]
      findBestLabelPosition_free_or_null [of 0 0 "''AB''" "[?ef]" 10 5 "(0, 15)"]
      findBestLabelPosition_free_or_null [of 0 0 "''AB''" "[?gh]" 10 5 "(0, 15)"]
    by simp
qed

end
